theory Spec2Isabelle
  imports Complex_Main
begin

section \<open>mrtransform: composing the transform and choosing the output path\<close>

text \<open>
  This theory embeds the body of \<^verbatim>\<open>EXECUTE\<close> of \<^verbatim>\<open>src/cmd/mrtransform.cpp\<close>.
  The command-line layer, the file readers, the matrix library and the reslicing engine
  live outside that file. What they deliver to \<^verbatim>\<open>EXECUTE\<close> (option values, image
  headers, the matrix read from the transform file, the integers parsed from the
  oversample text) is an input of the model; what \<^verbatim>\<open>EXECUTE\<close> calls
  (\<^verbatim>\<open>Math::mult\<close>, \<^verbatim>\<open>Math::LU::inv\<close>, the conversion of an \<^verbatim>\<open>int\<close> to a
  \<^verbatim>\<open>float\<close>, \<^verbatim>\<open>reslice\<close>, \<^verbatim>\<open>copy_with_progress\<close>) is a parameter, collected in
  the record \<open>library\<close>. Matrix entries are of an arbitrary type \<open>'a\<close> with a zero, a one,
  a negation and a product: no law of arithmetic is assumed of them, so the results hold
  for \<^verbatim>\<open>float\<close> as they do for the reals.
\<close>

subsection \<open>Math::Matrix\<close>

text \<open>
  A matrix is the list of its rows. A matrix that holds no data (default constructed, or
  after \<^verbatim>\<open>clear()\<close>) is the empty list: it has no rows and \<^verbatim>\<open>is_set()\<close> is false.
\<close>

type_synonym 'a matrix = "'a list list"

definition rows :: "'a matrix \<Rightarrow> nat" where
  "rows M = length M"

definition columns :: "'a matrix \<Rightarrow> nat" where
  "columns M = (case M of [] \<Rightarrow> 0 | r # _ \<Rightarrow> length r)"

definition is_set :: "'a matrix \<Rightarrow> bool" where
  "is_set M \<longleftrightarrow> M \<noteq> []"

definition unset :: "'a matrix" where
  "unset = []"

text \<open>\<^verbatim>\<open>Matrix<float> R (4,4); R.identity()\<close>\<close>

definition identity :: "nat \<Rightarrow> ('a::{zero,one}) matrix" where
  "identity n = map (\<lambda>i. map (\<lambda>j. if i = j then 1 else 0) [0..<n]) [0..<n]"

text \<open>\<^verbatim>\<open>M(i,j) = v\<close>\<close>

definition set_entry :: "'a matrix \<Rightarrow> nat \<Rightarrow> nat \<Rightarrow> 'a \<Rightarrow> 'a matrix" where
  "set_entry M i j v = M[i := (M ! i)[j := v]]"

subsection \<open>Image::Header\<close>

record 'a axis =
  dim :: int
  vox :: 'a

record 'a header =
  name :: string
  axes :: "'a axis list"
  transform :: "'a matrix"
  comments :: "string list"
  datatype_id :: string

text \<open>\<^verbatim>\<open>header.dim(i)\<close> and \<^verbatim>\<open>header.vox(i)\<close> read \<^verbatim>\<open>axes[i]\<close>.\<close>

definition hdr_dim :: "'a header \<Rightarrow> nat \<Rightarrow> int" where
  "hdr_dim h i = dim (axes h ! i)"

definition hdr_vox :: "'a header \<Rightarrow> nat \<Rightarrow> 'a" where
  "hdr_vox h i = vox (axes h ! i)"

text \<open>\<^verbatim>\<open>header.axes[i].dim = d\<close> and \<^verbatim>\<open>header.axes[i].vox = v\<close>\<close>

definition set_dim :: "'a header \<Rightarrow> nat \<Rightarrow> int \<Rightarrow> 'a header" where
  "set_dim h i d = h\<lparr>axes := (axes h)[i := (axes h ! i)\<lparr>dim := d\<rparr>]\<rparr>"

definition set_vox :: "'a header \<Rightarrow> nat \<Rightarrow> 'a \<Rightarrow> 'a header" where
  "set_vox h i v = h\<lparr>axes := (axes h)[i := (axes h ! i)\<lparr>vox := v\<rparr>]\<rparr>"

definition push_comment :: "'a header \<Rightarrow> string \<Rightarrow> 'a header" where
  "push_comment h c = h\<lparr>comments := comments h @ [c]\<rparr>"

subsection \<open>Options, errors, collaborators\<close>

text \<open>
  The options of one run, as \<^verbatim>\<open>get_options\<close> and the readers deliver them. An option
  with an argument is \<open>None\<close> when it was not supplied.
  \<^item> \<open>opt_transform\<close>: the file name and the matrix \<^verbatim>\<open>T.load\<close> read from it;
  \<^item> \<open>opt_reslice\<close>, \<open>opt_reference\<close>, \<open>arg_input\<close>: the header \<^verbatim>\<open>get_image()\<close> yields;
  \<^item> \<open>opt_interp\<close>: the index \<^verbatim>\<open>get_int()\<close> yields for the choice among
    \<^verbatim>\<open>interp_choices\<close>;
  \<^item> \<open>opt_oversample\<close>: the result of \<^verbatim>\<open>parse_ints\<close> on the option's text;
  \<^item> \<open>opt_datatype\<close>: the identifier \<^verbatim>\<open>DataType::identifiers[get_int()]\<close>.
\<close>

record 'a options =
  opt_transform :: "(string \<times> 'a matrix) option"
  opt_replace :: bool
  opt_inverse :: bool
  opt_reslice :: "'a header option"
  opt_reference :: "'a header option"
  opt_flipx :: bool
  opt_interp :: "int option"
  opt_oversample :: "int list option"
  opt_datatype :: "string option"
  arg_input :: "'a header"

text \<open>
  Every \<^verbatim>\<open>throw Exception (...)\<close> of \<^verbatim>\<open>EXECUTE\<close> is one constructor, in the order of
  the source. \<open>SingularMatrix\<close> is the failure of \<^verbatim>\<open>Math::LU::inv\<close> at line 135.
  \<open>AssertionFailed\<close> is the \<^verbatim>\<open>assert (0)\<close> of the kernel dispatch.
  An exception that escapes \<^verbatim>\<open>reslice\<close> or \<^verbatim>\<open>copy_with_progress\<close> is
  \<open>EngineSingularMatrix\<close> when it is a failed inversion inside the engine, and
  \<open>CollaboratorFailure\<close> otherwise.
\<close>

datatype error =
    TransformNot4x4 string
  | NoTransformForInverse
  | SingularMatrix
  | NoTransformForReference
  | NoTransformForReplace
  | OversampleNot3Values
  | OversampleNotPositive
  | AssertionFailed
  | EngineSingularMatrix
  | CollaboratorFailure

text \<open>
  The text each exception of \<^verbatim>\<open>EXECUTE\<close> carries. The text of the three others is
  the library's and is not in the file: \<open>None\<close>.
\<close>

definition quoted :: "char \<Rightarrow> string \<Rightarrow> string" where
  "quoted q s = [q] @ s @ [q]"

definition no_transform_for :: "string \<Rightarrow> string" where
  "no_transform_for opt =
     ''no transform provided for option '' @ quoted (CHR 0x27) opt
       @ '' (specify using '' @ quoted (CHR 0x27) ''-transform'' @ '' option)''"

fun message :: "error \<Rightarrow> string option" where
  "message (TransformNot4x4 file) =
     Some (''transform matrix supplied in file '' @ quoted (CHR 0x22) file @ '' is not 4x4'')"
| "message NoTransformForInverse = Some (no_transform_for ''-inverse'')"
| "message NoTransformForReference = Some (no_transform_for ''-reference'')"
| "message NoTransformForReplace = Some (no_transform_for ''-replace'')"
| "message OversampleNot3Values =
     Some (''option '' @ quoted (CHR 0x22) ''oversample'' @ '' expects a vector of 3 values'')"
| "message OversampleNotPositive = Some ''oversample factors must be greater than zero''"
| "message SingularMatrix = None"
| "message AssertionFailed = None"
| "message EngineSingularMatrix = None"
| "message CollaboratorFailure = None"

text \<open>
  The errors of the spec's taxonomy: a ValidationError is one of the six exceptions thrown
  by \<^verbatim>\<open>EXECUTE\<close> itself, a SingularMatrixError a failed inversion, at line 135 or
  inside the engine.
\<close>

fun is_ValidationError :: "error \<Rightarrow> bool" where
  "is_ValidationError (TransformNot4x4 _) = True"
| "is_ValidationError NoTransformForInverse = True"
| "is_ValidationError NoTransformForReference = True"
| "is_ValidationError NoTransformForReplace = True"
| "is_ValidationError OversampleNot3Values = True"
| "is_ValidationError OversampleNotPositive = True"
| "is_ValidationError _ = False"


datatype kernel = Nearest | Linear | Cubic

text \<open>
  The one call that moves voxel data: \<^verbatim>\<open>reslice<K> (out, in, T, oversample)\<close> with the
  header of \<^verbatim>\<open>out\<close>, the header of \<^verbatim>\<open>in\<close>, the transform and the factors, or
  \<^verbatim>\<open>copy_with_progress (out, in)\<close>.
\<close>

datatype 'a call =
    Reslice kernel "'a header" "'a header" "'a matrix" "int list"
  | Copy "'a header" "'a header"

text \<open>
  The functions \<^verbatim>\<open>EXECUTE\<close> calls and that are not in the file:
  \<^item> \<open>mult A B\<close>: the matrix \<^verbatim>\<open>Math::mult (C, A, B)\<close> stores in \<^verbatim>\<open>C\<close>;
  \<^item> \<open>lu_inv A\<close>: the matrix \<^verbatim>\<open>Math::LU::inv (I, A)\<close> stores in \<^verbatim>\<open>I\<close>, or \<open>None\<close>
    when it throws;
  \<^item> \<open>of_dim n\<close>: the \<^verbatim>\<open>float\<close> the \<^verbatim>\<open>int\<close> \<open>n\<close> converts to;
  \<^item> \<open>status c\<close>: how the call \<open>c\<close> ends: it returns, or an exception escapes it, which
    then ends \<^verbatim>\<open>EXECUTE\<close> too.
\<close>

datatype call_status = Returned | InversionFailed | OtherFailure

definition call_outcome :: "call_status \<Rightarrow> error option" where
  "call_outcome s =
     (case s of
        Returned \<Rightarrow> None
      | InversionFailed \<Rightarrow> Some EngineSingularMatrix
      | OtherFailure \<Rightarrow> Some CollaboratorFailure)"

record 'a library =
  mult :: "'a matrix \<Rightarrow> 'a matrix \<Rightarrow> 'a matrix"
  lu_inv :: "'a matrix \<Rightarrow> 'a matrix option"
  of_dim :: "int \<Rightarrow> 'a"
  status :: "'a call \<Rightarrow> call_status"

text \<open>
  What a run leaves behind: the exception that ended it, if any; the header the output
  image was created with by \<^verbatim>\<open>argument[1].get_image (header)\<close>, if it was created; the
  call that was made to fill it, if one was made.
\<close>

record 'a run =
  outcome :: "error option"
  created :: "'a header option"
  invoked :: "'a call option"

subsection \<open>The transform composer (lines 112 to 174)\<close>

text \<open>Lines 114 to 119: load the transform and check its shape.\<close>

definition load_transform :: "'a options \<Rightarrow> error + 'a matrix" where
  "load_transform opts =
     (case opt_transform opts of
        None \<Rightarrow> Inr unset
      | Some (file, M) \<Rightarrow>
          if rows M \<noteq> 4 \<or> columns M \<noteq> 4 then Inl (TransformNot4x4 file) else Inr M)"

text \<open>Lines 125 and 126: the output header is a copy of the input's, with the data type chosen.\<close>

definition apply_datatype :: "'a options \<Rightarrow> 'a header \<Rightarrow> 'a header" where
  "apply_datatype opts h =
     (case opt_datatype opts of None \<Rightarrow> h | Some d \<Rightarrow> h\<lparr>datatype_id := d\<rparr>)"

text \<open>Lines 131 to 137.\<close>

definition apply_inverse :: "'a library \<Rightarrow> bool \<Rightarrow> 'a matrix \<Rightarrow> error + 'a matrix" where
  "apply_inverse lib inverse0 T0 =
     (if inverse0 then
        if \<not> is_set T0 then Inl NoTransformForInverse
        else (case lu_inv lib T0 of None \<Rightarrow> Inl SingularMatrix | Some I \<Rightarrow> Inr I)
      else Inr T0)"

text \<open>
  Lines 147 to 154: the two correction matrices, before the swap of line 157.
  \<open>R_orig\<close> is copied from \<open>R_ref\<close> when only the entry (0,0) has been set.
\<close>

definition R_ref_of :: "('a::{zero,one,uminus,times}) library \<Rightarrow> 'a header \<Rightarrow> 'a matrix" where
  "R_ref_of lib ref_header =
     set_entry (set_entry (identity 4) 0 0 (- 1)) 0 3
       (of_dim lib (hdr_dim ref_header 0 - 1) * hdr_vox ref_header 0)"

definition R_orig_of :: "('a::{zero,one,uminus,times}) library \<Rightarrow> 'a header \<Rightarrow> 'a matrix" where
  "R_orig_of lib hdr =
     set_entry (set_entry (identity 4) 0 0 (- 1)) 0 3
       (of_dim lib (hdr_dim hdr 0 - 1) * hdr_vox hdr 0)"

text \<open>Lines 146 to 162.\<close>

definition flipx_correction ::
  "('a::{zero,one,uminus,times}) library \<Rightarrow> bool \<Rightarrow> 'a header \<Rightarrow> 'a header \<Rightarrow> 'a matrix \<Rightarrow> 'a matrix"
where
  "flipx_correction lib inverse0 ref_header hdr T0 =
     (let R_ref = R_ref_of lib ref_header;
          R_orig = R_orig_of lib hdr;
          (R_ref, R_orig) = (if inverse0 then (R_orig, R_ref) else (R_ref, R_orig));
          T_tmp = mult lib T0 R_orig
      in mult lib R_ref T_tmp)"

text \<open>Lines 139 to 168: the pair returned is the transform and the replace flag.\<close>

definition apply_reference ::
  "('a::{zero,one,uminus,times}) library \<Rightarrow> 'a options \<Rightarrow> 'a header \<Rightarrow> 'a matrix \<Rightarrow> bool
     \<Rightarrow> error + ('a matrix \<times> bool)"
where
  "apply_reference lib opts hdr T0 replace0 =
     (case opt_reference opts of
        None \<Rightarrow> Inr (T0, replace0)
      | Some ref_header \<Rightarrow>
          if \<not> is_set T0 then Inl NoTransformForReference
          else
            let T1 = (if opt_flipx opts
                      then flipx_correction lib (opt_inverse opts) ref_header hdr T0
                      else T0);
                T_tmp = mult lib (transform ref_header) T1
            in Inr (T_tmp, True))"

text \<open>Lines 172 to 174.\<close>

definition check_replace :: "'a matrix \<Rightarrow> bool \<Rightarrow> error + unit" where
  "check_replace T0 replace0 =
     (if replace0 \<and> \<not> is_set T0 then Inl NoTransformForReplace else Inr ())"

text \<open>The local variables of \<^verbatim>\<open>EXECUTE\<close> at line 176.\<close>

record 'a locals =
  T :: "'a matrix"
  header_in :: "'a header"
  header :: "'a header"
  replace :: bool

definition compose ::
  "('a::{zero,one,uminus,times}) library \<Rightarrow> 'a options \<Rightarrow> error + 'a locals"
where
  "compose lib opts =
     (case load_transform opts of
        Inl e \<Rightarrow> Inl e
      | Inr T0 \<Rightarrow>
          let hdr_in = arg_input opts;
              hdr = apply_datatype opts hdr_in
          in (case apply_inverse lib (opt_inverse opts) T0 of
                Inl e \<Rightarrow> Inl e
              | Inr T1 \<Rightarrow>
                  (case apply_reference lib opts hdr T1 (opt_replace opts) of
                     Inl e \<Rightarrow> Inl e
                   | Inr (T2, replace2) \<Rightarrow>
                       (case check_replace T2 replace2 of
                          Inl e \<Rightarrow> Inl e
                        | Inr _ \<Rightarrow>
                            Inr \<lparr>T = T2, header_in = hdr_in, header = hdr,
                                 replace = replace2\<rparr>))))"

subsection \<open>The reslice path (lines 179 to 220)\<close>

text \<open>Lines 181 to 188: the output geometry is the template's.\<close>

definition template_geometry :: "'a header \<Rightarrow> 'a header \<Rightarrow> 'a header" where
  "template_geometry template_header h =
     (let h = set_dim h 0 (dim (axes template_header ! 0));
          h = set_dim h 1 (dim (axes template_header ! 1));
          h = set_dim h 2 (dim (axes template_header ! 2));
          h = set_vox h 0 (vox (axes template_header ! 0));
          h = set_vox h 1 (vox (axes template_header ! 1));
          h = set_vox h 2 (vox (axes template_header ! 2));
          h = h\<lparr>transform := transform template_header\<rparr>
      in push_comment h
           (''resliced to reference image '' @ quoted (CHR 0x22) (name template_header)))"

text \<open>Lines 190 to 192.\<close>

definition interp_of :: "'a options \<Rightarrow> int" where
  "interp_of opts = (case opt_interp opts of None \<Rightarrow> 1 | Some i \<Rightarrow> i)"

text \<open>Lines 194 to 201. Without the option the vector stays empty.\<close>

definition oversample_of :: "'a options \<Rightarrow> error + int list" where
  "oversample_of opts =
     (case opt_oversample opts of
        None \<Rightarrow> Inr []
      | Some oversample \<Rightarrow>
          if length oversample \<noteq> 3 then Inl OversampleNot3Values
          else if oversample ! 0 < 1 \<or> oversample ! 1 < 1 \<or> oversample ! 2 < 1
          then Inl OversampleNotPositive
          else Inr oversample)"

text \<open>
  Lines 213 to 218: the \<^verbatim>\<open>switch\<close>; \<open>None\<close> is its \<^verbatim>\<open>default\<close>. The index
  comes from a choice among the three names of \<^verbatim>\<open>interp_choices\<close>, so a run does not
  reach the default.
\<close>

definition kernel_of :: "int \<Rightarrow> kernel option" where
  "kernel_of interp =
     (if interp = 0 then Some Nearest
      else if interp = 1 then Some Linear
      else if interp = 2 then Some Cubic
      else None)"

definition reslice_path :: "'a library \<Rightarrow> 'a options \<Rightarrow> 'a header \<Rightarrow> 'a locals \<Rightarrow> 'a run" where
  "reslice_path lib opts template_header st =
     (let hdr = template_geometry template_header (header st);
          interp = interp_of opts
      in (case oversample_of opts of
            Inl e \<Rightarrow> \<lparr>outcome = Some e, created = None, invoked = None\<rparr>
          | Inr oversample \<Rightarrow>
              let (hdr_in, T1) =
                    (if replace st
                     then ((header_in st)\<lparr>transform := T st\<rparr>, unset)
                     else (header_in st, T st));
                  header_out = hdr
              in (case kernel_of interp of
                    None \<Rightarrow>
                      \<lparr>outcome = Some AssertionFailed, created = Some header_out,
                       invoked = None\<rparr>
                  | Some k \<Rightarrow>
                      let c = Reslice k header_out hdr_in T1 oversample
                      in \<lparr>outcome = call_outcome (status lib c),
                          created = Some header_out, invoked = Some c\<rparr>)))"

subsection \<open>The straight copy (lines 221 to 237)\<close>

definition copy_header :: "'a library \<Rightarrow> 'a locals \<Rightarrow> 'a header" where
  "copy_header lib st =
     (if is_set (T st) then
        let hdr = push_comment (header st) ''transform modified''
        in if replace st then hdr\<lparr>transform := T st\<rparr>
           else (let M = transform hdr in hdr\<lparr>transform := mult lib (T st) M\<rparr>)
      else header st)"

definition copy_path :: "'a library \<Rightarrow> 'a locals \<Rightarrow> 'a run" where
  "copy_path lib st =
     (let header_out = copy_header lib st;
          c = Copy header_out (header_in st)
      in \<lparr>outcome = call_outcome (status lib c),
          created = Some header_out, invoked = Some c\<rparr>)"

subsection \<open>EXECUTE\<close>

definition EXECUTE :: "('a::{zero,one,uminus,times}) library \<Rightarrow> 'a options \<Rightarrow> 'a run" where
  "EXECUTE lib opts =
     (case compose lib opts of
        Inl e \<Rightarrow> \<lparr>outcome = Some e, created = None, invoked = None\<rparr>
      | Inr st \<Rightarrow>
          (case opt_reslice opts of
             Some template_header \<Rightarrow> reslice_path lib opts template_header st
           | None \<Rightarrow> copy_path lib st))"

subsection \<open>Vocabulary of the results\<close>

text \<open>
  The spec's correction matrix: the 4x4 identity with entry (0,0) set to -1 and entry (0,3)
  set to \<open>t\<close>, written out.
\<close>

definition flip_matrix :: "('a::{zero,one,uminus}) \<Rightarrow> 'a matrix" where
  "flip_matrix t = [[- 1, 0, 0, t], [0, 1, 0, 0], [0, 0, 1, 0], [0, 0, 0, 1]]"

text \<open>
  What the results on the three "no transform" checks need of the library: inverting or
  multiplying matrices that hold data gives a matrix that holds data.
\<close>

definition keeps_set :: "'a library \<Rightarrow> bool" where
  "keeps_set lib \<longleftrightarrow>
     (\<forall>A I. is_set A \<and> lu_inv lib A = Some I \<longrightarrow> is_set I) \<and>
     (\<forall>A B. is_set A \<and> is_set B \<longrightarrow> is_set (mult lib A B))"

text \<open>The vector of oversampling factors the two checks of lines 198 to 200 reject.\<close>

definition bad_oversample :: "int list \<Rightarrow> bool" where
  "bad_oversample v \<longleftrightarrow> length v \<noteq> 3 \<or> (\<exists>x \<in> set v. x < 1)"

subsection \<open>A library and inputs for the examples\<close>

text \<open>
  Modelled from the spec: \<^verbatim>\<open>Math::mult\<close> (lib/math) is not in the file. The spec has
  \<open>multiply(A, B)\<close> be the product \<open>A \<cdot> B\<close>; here over the reals.
\<close>

definition dot :: "real list \<Rightarrow> real list \<Rightarrow> real" where
  "dot r c = sum_list (map2 (*) r c)"

definition mat_mult :: "real matrix \<Rightarrow> real matrix \<Rightarrow> real matrix" where
  "mat_mult A B = map (\<lambda>r. map (\<lambda>j. dot r (map (\<lambda>s. s ! j) B)) [0..<columns B]) A"

text \<open>
  Modelled from the spec: \<^verbatim>\<open>Math::LU::inv\<close> (lib/math) is not in the file. The spec has
  \<open>invert(A)\<close> be the inverse, and fail on a matrix whose determinant is zero; here by
  cofactors, over the reals.
\<close>

definition del :: "nat \<Rightarrow> 'a list \<Rightarrow> 'a list" where
  "del i xs = take i xs @ drop (Suc i) xs"

fun det :: "real matrix \<Rightarrow> real" where
  "det [] = 1"
| "det (r # rs) = (\<Sum>j\<leftarrow>[0..<length r]. (- 1) ^ j * r ! j * det (map (del j) rs))"

definition cofactor_inv :: "real matrix \<Rightarrow> real matrix option" where
  "cofactor_inv M =
     (let d = det M; n = rows M in
      if d = 0 then None
      else Some (map (\<lambda>i. map (\<lambda>j. (- 1) ^ (i + j) * det (map (del i) (del j M)) / d)
                               [0..<n]) [0..<n]))"

text \<open>
  Modelled from the spec: the reslicing engine (\<^verbatim>\<open>DataSet::Interp::reslice\<close>,
  lib/dataset) is not in the file. The spec has it compute, once per run, the mapping
  \<open>invert(inputScannerTransform) \<cdot> T_final \<cdot> outputScannerTransform\<close>, and has
  \<open>invert\<close> fail with a SingularMatrixError on a matrix that cannot be inverted. Only that
  is modelled: the call fails when the transform of the input header has no inverse. The
  copy inverts nothing.
\<close>

definition spec_status :: "('a matrix \<Rightarrow> 'a matrix option) \<Rightarrow> 'a call \<Rightarrow> call_status" where
  "spec_status invert c =
     (case c of
        Reslice k header_out hdr_in T1 oversample \<Rightarrow>
          (case invert (transform hdr_in) of None \<Rightarrow> InversionFailed | Some _ \<Rightarrow> Returned)
      | Copy header_out hdr_in \<Rightarrow> Returned)"

definition demo_lib :: "real library" where
  "demo_lib = \<lparr>mult = mat_mult, lu_inv = cofactor_inv, of_dim = real_of_int,
                status = spec_status cofactor_inv\<rparr>"

definition translation :: "real \<Rightarrow> real \<Rightarrow> real \<Rightarrow> real matrix" where
  "translation x y z = [[1, 0, 0, x], [0, 1, 0, y], [0, 0, 1, z], [0, 0, 0, 1]]"

definition demo_input :: "real header" where
  "demo_input = \<lparr>name = ''in.mif'',
     axes = [\<lparr>dim = 4, vox = 2\<rparr>, \<lparr>dim = 5, vox = 2\<rparr>, \<lparr>dim = 6, vox = 3\<rparr>],
     transform = translation 5 6 7, comments = [], datatype_id = ''Float32''\<rparr>"

definition demo_reference :: "real header" where
  "demo_reference = \<lparr>name = ''ref.mif'',
     axes = [\<lparr>dim = 8, vox = 1\<rparr>, \<lparr>dim = 9, vox = 1\<rparr>, \<lparr>dim = 10, vox = 1\<rparr>],
     transform = translation 10 20 30, comments = [], datatype_id = ''Float32''\<rparr>"

definition demo_template :: "real header" where
  "demo_template = \<lparr>name = ''template.mif'',
     axes = [\<lparr>dim = 2, vox = 4\<rparr>, \<lparr>dim = 3, vox = 4\<rparr>, \<lparr>dim = 3, vox = 6\<rparr>],
     transform = translation (- 1) (- 2) (- 3), comments = [], datatype_id = ''Float32''\<rparr>"

text \<open>The run \<^verbatim>\<open>mrtransform in.mif out.mif\<close>, to which the examples add options.\<close>

definition demo_opts :: "real options" where
  "demo_opts = \<lparr>opt_transform = None, opt_replace = False, opt_inverse = False,
     opt_reslice = None, opt_reference = None, opt_flipx = False, opt_interp = None,
     opt_oversample = None, opt_datatype = None, arg_input = demo_input\<rparr>"

text \<open>
  \<^verbatim>\<open>-transform flirt.mat -inverse -reference ref.mif -flipx\<close>, the file holding the
  translation by (1, 2, 3).
\<close>

definition flirt_opts :: "real options" where
  "flirt_opts = demo_opts\<lparr>opt_transform := Some (''flirt.mat'', translation 1 2 3),
     opt_inverse := True, opt_reference := Some demo_reference, opt_flipx := True\<rparr>"

text \<open>\<^verbatim>\<open>-transform t.txt -reference ref.mif\<close>\<close>

definition reference_opts :: "real options" where
  "reference_opts = demo_opts\<lparr>opt_transform := Some (''t.txt'', translation 1 2 3),
     opt_reference := Some demo_reference\<rparr>"

text \<open>\<^verbatim>\<open>-transform t.txt\<close>, and the same with \<^verbatim>\<open>-replace\<close>.\<close>

definition copy_opts :: "real options" where
  "copy_opts = demo_opts\<lparr>opt_transform := Some (''t.txt'', translation 1 2 3)\<rparr>"

definition replace_opts :: "real options" where
  "replace_opts = copy_opts\<lparr>opt_replace := True\<rparr>"

text \<open>\<^verbatim>\<open>-oversample 0,1,1\<close>, and the same with \<^verbatim>\<open>-reslice template.mif\<close>.\<close>

definition oversample_opts :: "real options" where
  "oversample_opts = demo_opts\<lparr>opt_oversample := Some [0, 1, 1]\<rparr>"

definition oversample_reslice_opts :: "real options" where
  "oversample_reslice_opts = oversample_opts\<lparr>opt_reslice := Some demo_template\<rparr>"

text \<open>\<^verbatim>\<open>-transform bad.txt\<close>, the file holding three rows of four numbers.\<close>

definition three_rows_opts :: "real options" where
  "three_rows_opts = demo_opts\<lparr>opt_transform :=
     Some (''bad.txt'', [[1, 0, 0, 0], [0, 1, 0, 0], [0, 0, 1, 0]])\<rparr>"




text \<open>
  \<^verbatim>\<open>-reslice template.mif\<close>, and
  \<^verbatim>\<open>-transform t.txt -replace -reslice template.mif -interp cubic -oversample 2,2,2\<close>.
\<close>

definition reslice_opts :: "real options" where
  "reslice_opts = demo_opts\<lparr>opt_reslice := Some demo_template\<rparr>"

definition reslice_replace_opts :: "real options" where
  "reslice_replace_opts = replace_opts\<lparr>opt_reslice := Some demo_template,
     opt_interp := Some 2, opt_oversample := Some [2, 2, 2]\<rparr>"

text \<open>The output header of \<^verbatim>\<open>-reslice template.mif\<close> on the input of the examples.\<close>

definition demo_resliced :: "real header" where
  "demo_resliced = \<lparr>name = ''in.mif'',
     axes = [\<lparr>dim = 2, vox = 4\<rparr>, \<lparr>dim = 3, vox = 4\<rparr>, \<lparr>dim = 3, vox = 6\<rparr>],
     transform = translation (- 1) (- 2) (- 3),
     comments = [''resliced to reference image '' @ quoted (CHR 0x22) ''template.mif''],
     datatype_id = ''Float32''\<rparr>"

section \<open>Auxiliary facts\<close>

subsection \<open>Facts about the matrices and the header updates\<close>

lemma identity_4:
  "identity 4 = [[1, 0, 0, 0], [0, 1, 0, 0], [0, 0, 1, 0], [0, 0, 0, 1]]"
  by (simp add: identity_def upt_rec)

lemma R_ref_of_flip:
  "R_ref_of lib h = flip_matrix (of_dim lib (hdr_dim h 0 - 1) * hdr_vox h 0)"
  by (simp add: R_ref_of_def set_entry_def identity_4 flip_matrix_def)

lemma R_orig_of_flip:
  "R_orig_of lib h = flip_matrix (of_dim lib (hdr_dim h 0 - 1) * hdr_vox h 0)"
  by (simp add: R_orig_of_def set_entry_def identity_4 flip_matrix_def)

lemma hdr_dim_apply_datatype [simp]: "hdr_dim (apply_datatype opts h) i = hdr_dim h i"
  by (simp add: apply_datatype_def hdr_dim_def split: option.splits)

lemma hdr_vox_apply_datatype [simp]: "hdr_vox (apply_datatype opts h) i = hdr_vox h i"
  by (simp add: apply_datatype_def hdr_vox_def split: option.splits)

lemma transform_apply_datatype [simp]: "transform (apply_datatype opts h) = transform h"
  by (simp add: apply_datatype_def split: option.splits)

lemma axes_apply_datatype [simp]: "axes (apply_datatype opts h) = axes h"
  by (simp add: apply_datatype_def split: option.splits)


subsection \<open>Facts about the steps of the composer\<close>

lemma is_set_flip_matrix [simp]: "is_set (flip_matrix t)"
  by (simp add: is_set_def flip_matrix_def)

lemma load_transform_None [simp]: "opt_transform opts = None \<Longrightarrow> load_transform opts = Inr unset"
  by (simp add: load_transform_def)

lemma not_is_set_unset [simp]: "\<not> is_set unset"
  by (simp add: is_set_def unset_def)

lemma load_transform_is_set:
  "opt_transform opts = Some (file, M) \<Longrightarrow> load_transform opts = Inr T0 \<Longrightarrow> T0 = M \<and> is_set T0"
  by (auto simp: load_transform_def is_set_def rows_def split: if_splits)

lemma compose_error_kind:
  "compose lib opts = Inl e \<Longrightarrow> is_ValidationError e \<or> e = SingularMatrix"
  by (auto simp: compose_def load_transform_def apply_inverse_def apply_reference_def
      check_replace_def Let_def split: option.splits if_splits sum.splits prod.splits)


lemma oversample_of_bad:
  "opt_oversample opts = Some v \<Longrightarrow> bad_oversample v \<Longrightarrow>
   oversample_of opts = Inl (if length v \<noteq> 3 then OversampleNot3Values else OversampleNotPositive)"
proof -
  assume v: "opt_oversample opts = Some v" and bad: "bad_oversample v"
  show ?thesis
  proof (cases "length v = 3")
    case False
    with v show ?thesis by (simp add: oversample_of_def)
  next
    case True
    then obtain a b c where abc: "v = [a, b, c]"
      by (cases v; simp; rename_tac x xs; case_tac xs; simp; rename_tac y ys; case_tac ys; simp)
    with bad have "a < 1 \<or> b < 1 \<or> c < 1" by (auto simp: bad_oversample_def)
    with v abc show ?thesis by (simp add: oversample_of_def)
  qed
qed

subsection \<open>Facts about the two output paths\<close>

lemma call_outcome_kind:
  "call_outcome s = Some e \<Longrightarrow> e = EngineSingularMatrix \<or> e = CollaboratorFailure"
  by (cases s) (simp_all add: call_outcome_def)

lemma oversample_of_error_which:
  "oversample_of opts = Inl e \<Longrightarrow> e = OversampleNot3Values \<or> e = OversampleNotPositive"
  by (auto simp: oversample_of_def split: option.splits if_splits)

lemma copy_path_run:
  "outcome (copy_path lib st) = call_outcome (status lib (Copy (copy_header lib st) (header_in st))) \<and>
   created (copy_path lib st) = Some (copy_header lib st) \<and>
   invoked (copy_path lib st) = Some (Copy (copy_header lib st) (header_in st))"
  by (simp add: copy_path_def Let_def)

lemma reslice_path_early:
  "oversample_of opts = Inl e \<Longrightarrow>
   reslice_path lib opts t st = \<lparr>outcome = Some e, created = None, invoked = None\<rparr>"
  by (simp add: reslice_path_def Let_def)

lemma reslice_path_late:
  assumes "oversample_of opts = Inr v"
  shows "created (reslice_path lib opts t st) = Some (template_geometry t (header st)) \<and>
         (case kernel_of (interp_of opts) of
            None \<Rightarrow> outcome (reslice_path lib opts t st) = Some AssertionFailed \<and>
                    invoked (reslice_path lib opts t st) = None
          | Some k \<Rightarrow>
              (\<exists>c. invoked (reslice_path lib opts t st) = Some c \<and>
                   outcome (reslice_path lib opts t st) = call_outcome (status lib c)))"
  using assms
  by (cases "kernel_of (interp_of opts)"; cases "replace st")
     (simp_all add: reslice_path_def Let_def)

lemma late_outcome:
  assumes composed: "compose lib opts = Inr st"
    and failed: "outcome (EXECUTE lib opts) = Some e"
  shows "(oversample_of opts = Inl e \<and> opt_reslice opts \<noteq> None \<and>
            created (EXECUTE lib opts) = None \<and> invoked (EXECUTE lib opts) = None) \<or>
         (created (EXECUTE lib opts) \<noteq> None \<and>
            (e = AssertionFailed \<or>
             (\<exists>c. invoked (EXECUTE lib opts) = Some c \<and>
                  call_outcome (status lib c) = Some e)))"
proof (cases "opt_reslice opts")
  case None
  with composed have "EXECUTE lib opts = copy_path lib st" by (simp add: EXECUTE_def)
  with failed copy_path_run[of lib st] show ?thesis by simp
next
  case (Some t)
  with composed have run: "EXECUTE lib opts = reslice_path lib opts t st"
    by (simp add: EXECUTE_def)
  show ?thesis
  proof (cases "oversample_of opts")
    case (Inl e')
    from reslice_path_early[OF Inl] run failed Some Inl show ?thesis by simp
  next
    case (Inr v)
    from reslice_path_late[OF Inr, of lib t st] run failed show ?thesis
      by (cases "kernel_of (interp_of opts)") auto
  qed
qed

subsection \<open>Facts about the template geometry\<close>

lemma transform_template_geometry [simp]:
  "transform (template_geometry t h) = transform t"
  by (simp add: template_geometry_def set_dim_def set_vox_def push_comment_def Let_def)

lemma three_axes:
  "3 \<le> length (xs :: 'b list) \<Longrightarrow> \<exists>a b c rest. xs = a # b # c # rest"
  by (cases xs; simp; rename_tac ys; case_tac ys; simp; rename_tac zs; case_tac zs; simp)

lemma axes_template_geometry:
  "3 \<le> length (axes h) \<Longrightarrow> i < 3 \<Longrightarrow>
   axes (template_geometry t h) ! i = \<lparr>dim = dim (axes t ! i), vox = vox (axes t ! i)\<rparr>"
proof -
  assume len: "3 \<le> length (axes h)" and i: "i < 3"
  from len obtain a b c rest where h: "axes h = a # b # c # rest"
    using three_axes by blast
  from i have "i = 0 \<or> i = 1 \<or> i = 2" by arith
  with h show ?thesis
    by (auto simp: template_geometry_def set_dim_def set_vox_def push_comment_def Let_def)
qed

section \<open>The transform composer\<close>

text \<open>
  Claim C1. In a run with \<^verbatim>\<open>-reference\<close> and \<^verbatim>\<open>-flipx\<close> and a transform that is
  set when line 141 is reached (\<open>T1\<close>, the transform loaded, inverted when \<^verbatim>\<open>-inverse\<close>
  was given), the two correction matrices are the 4x4 identity with entry (0,0) set to -1;
  entry (0,3) of \<open>R_ref\<close> is \<open>(refDim0 - 1) * refVoxSize0\<close> and entry (0,3) of
  \<open>R_orig\<close> is \<open>(inputDim0 - 1) * inputVoxSize0\<close>. With \<^verbatim>\<open>-inverse\<close> the two are
  swapped. The transform becomes \<open>R_ref \<cdot> (T1 \<cdot> R_orig)\<close> and is then multiplied on the
  left by the reference image's transform; what the composer returns is that product, with
  \<open>replace\<close> true (or the exception of line 174, should the product hold no data).
\<close>

theorem flipx_correction_matrices:
  assumes ref: "opt_reference opts = Some ref_header"
    and flipx: "opt_flipx opts"
    and loaded: "load_transform opts = Inr T0"
    and inverted: "apply_inverse lib (opt_inverse opts) T0 = Inr T1"
    and T1: "is_set T1"
  shows "R_ref_of lib ref_header
           = flip_matrix (of_dim lib (hdr_dim ref_header 0 - 1) * hdr_vox ref_header 0) \<and>
         R_orig_of lib (apply_datatype opts (arg_input opts))
           = flip_matrix (of_dim lib (hdr_dim (arg_input opts) 0 - 1)
                            * hdr_vox (arg_input opts) 0) \<and>
         compose lib opts =
           (let R1 = R_ref_of lib ref_header;
                R2 = R_orig_of lib (apply_datatype opts (arg_input opts));
                (R_ref, R_orig) = (if opt_inverse opts then (R2, R1) else (R1, R2));
                T2 = mult lib R_ref (mult lib T1 R_orig);
                T3 = mult lib (transform ref_header) T2
            in if is_set T3
               then Inr \<lparr>T = T3, header_in = arg_input opts,
                         header = apply_datatype opts (arg_input opts), replace = True\<rparr>
               else Inl NoTransformForReplace)"
  using ref flipx T1 loaded inverted
  by (simp add: R_ref_of_flip R_orig_of_flip flipx_correction_def apply_reference_def Let_def
      compose_def check_replace_def)

text \<open>
  Claim C2. In a run with \<^verbatim>\<open>-reference\<close> and a transform that is set, the transform
  the reference step leaves is the reference image's transform times the transform after
  inversion and flipx correction, and the replace flag is true, whether or not
  \<^verbatim>\<open>-replace\<close> was given. Both are what the composer hands on when it succeeds.
\<close>

theorem reference_composition:
  assumes ref: "opt_reference opts = Some ref_header"
    and loaded: "load_transform opts = Inr T0"
    and inverted: "apply_inverse lib (opt_inverse opts) T0 = Inr T1"
    and T1: "is_set T1"
  shows "apply_reference lib opts (apply_datatype opts (arg_input opts)) T1 (opt_replace opts)
           = Inr (mult lib (transform ref_header)
                    (if opt_flipx opts
                     then flipx_correction lib (opt_inverse opts) ref_header
                            (apply_datatype opts (arg_input opts)) T1
                     else T1), True) \<and>
         (\<forall>st. compose lib opts = Inr st \<longrightarrow>
            replace st \<and>
            T st = mult lib (transform ref_header)
                     (if opt_flipx opts
                      then flipx_correction lib (opt_inverse opts) ref_header
                             (apply_datatype opts (arg_input opts)) T1
                      else T1))"
  using ref T1 loaded inverted
  by (auto simp: apply_reference_def Let_def compose_def check_replace_def split: if_splits)

section \<open>The straight copy\<close>

text \<open>
  Claim C3. Without \<^verbatim>\<open>-reslice\<close>, the header the output image is created with has
  the transform \<open>T\<close> when a transform is set and replace is true, the product of \<open>T\<close> and
  the input header's transform when a transform is set and replace is false, and the input
  header's transform when no transform is set.
\<close>

theorem direct_copy_header_transform:
  assumes composed: "compose lib opts = Inr st"
    and no_reslice: "opt_reslice opts = None"
  shows "\<exists>h. created (EXECUTE lib opts) = Some h \<and>
           transform h =
             (if is_set (T st)
              then if replace st then T st
                   else mult lib (T st) (transform (arg_input opts))
              else transform (arg_input opts))"
proof -
  from composed have hdr: "header st = apply_datatype opts (arg_input opts)"
    by (auto simp: compose_def Let_def split: sum.splits prod.splits)
  from composed no_reslice have "created (EXECUTE lib opts) = Some (copy_header lib st)"
    by (simp add: EXECUTE_def copy_path_def Let_def)
  moreover have "transform (copy_header lib st) =
             (if is_set (T st)
              then if replace st then T st
                   else mult lib (T st) (transform (arg_input opts))
              else transform (arg_input opts))"
    by (simp add: copy_header_def push_comment_def Let_def hdr)
  ultimately show ?thesis by simp
qed

section \<open>Validation\<close>

text \<open>
  Claim C4. Without \<^verbatim>\<open>-transform\<close>, a run with \<^verbatim>\<open>-inverse\<close>,
  \<^verbatim>\<open>-reference\<close> or \<^verbatim>\<open>-replace\<close> ends with the exception of the first of the
  three checks that applies, whose text names the option that lacks its transform, and
  creates no output. With \<^verbatim>\<open>-transform\<close>, none of the three exceptions is raised,
  provided the library's inverse and product of matrices that hold data hold data, and the
  reference header has a transform.
\<close>

theorem missing_transform_checks:
  "(opt_transform opts = None \<and>
      (opt_inverse opts \<or> opt_reference opts \<noteq> None \<or> opt_replace opts) \<longrightarrow>
      (\<exists>e. EXECUTE lib opts = \<lparr>outcome = Some e, created = None, invoked = None\<rparr> \<and>
           is_ValidationError e \<and>
           e = (if opt_inverse opts then NoTransformForInverse
                else if opt_reference opts \<noteq> None then NoTransformForReference
                else NoTransformForReplace) \<and>
           message e = Some (no_transform_for
                (if opt_inverse opts then ''-inverse''
                 else if opt_reference opts \<noteq> None then ''-reference''
                 else ''-replace'')))) \<and>
   (opt_transform opts \<noteq> None \<and> keeps_set lib \<and>
      (\<forall>r. opt_reference opts = Some r \<longrightarrow> is_set (transform r)) \<longrightarrow>
      outcome (EXECUTE lib opts) \<noteq> Some NoTransformForInverse \<and>
      outcome (EXECUTE lib opts) \<noteq> Some NoTransformForReference \<and>
      outcome (EXECUTE lib opts) \<noteq> Some NoTransformForReplace)"
proof (rule conjI; rule impI)
  assume a: "opt_transform opts = None \<and>
      (opt_inverse opts \<or> opt_reference opts \<noteq> None \<or> opt_replace opts)"
  then show "\<exists>e. EXECUTE lib opts = \<lparr>outcome = Some e, created = None, invoked = None\<rparr> \<and>
           is_ValidationError e \<and>
           e = (if opt_inverse opts then NoTransformForInverse
                else if opt_reference opts \<noteq> None then NoTransformForReference
                else NoTransformForReplace) \<and>
           message e = Some (no_transform_for
                (if opt_inverse opts then ''-inverse''
                 else if opt_reference opts \<noteq> None then ''-reference''
                 else ''-replace''))"
    by (auto simp: EXECUTE_def compose_def apply_inverse_def apply_reference_def
        check_replace_def Let_def)
next
  assume b: "opt_transform opts \<noteq> None \<and> keeps_set lib \<and>
      (\<forall>r. opt_reference opts = Some r \<longrightarrow> is_set (transform r))"
  then obtain fname M where tr: "opt_transform opts = Some (fname, M)" by auto
  from b have inv_set: "\<And>A I. is_set A \<Longrightarrow> lu_inv lib A = Some I \<Longrightarrow> is_set I"
    and mult_set: "\<And>A B. is_set A \<Longrightarrow> is_set B \<Longrightarrow> is_set (mult lib A B)"
    and ref_set: "\<And>r. opt_reference opts = Some r \<Longrightarrow> is_set (transform r)"
    by (auto simp: keeps_set_def)
  have compose_ok: "compose lib opts \<noteq> Inl NoTransformForInverse \<and>
        compose lib opts \<noteq> Inl NoTransformForReference \<and>
        compose lib opts \<noteq> Inl NoTransformForReplace"
  proof (cases "load_transform opts")
    case (Inl e)
    with tr show ?thesis
      by (auto simp: compose_def load_transform_def split: if_splits)
  next
    case (Inr T0)
    with tr have T0: "is_set T0" using load_transform_is_set by blast
    show ?thesis
    proof (cases "apply_inverse lib (opt_inverse opts) T0")
      case (Inl e)
      with T0 have "e = SingularMatrix"
        by (auto simp: apply_inverse_def split: if_splits option.splits)
      with Inl Inr show ?thesis by (simp add: compose_def Let_def)
    next
      case inv: (Inr T1)
      with T0 have T1: "is_set T1"
        by (auto simp: apply_inverse_def split: if_splits option.splits dest: inv_set)
      have flip: "is_set (flipx_correction lib b r h T1)" for b r h
        using T1 by (simp add: flipx_correction_def Let_def R_ref_of_flip R_orig_of_flip mult_set)
      show ?thesis
      proof (cases "opt_reference opts")
        case None
        with Inr inv T1 show ?thesis
          by (simp add: compose_def Let_def apply_reference_def check_replace_def)
      next
        case (Some r)
        with Inr inv T1 flip ref_set[OF Some] show ?thesis
          by (simp add: compose_def Let_def apply_reference_def check_replace_def mult_set)
      qed
    qed
  qed
  have after: "outcome (EXECUTE lib opts) = Some e \<Longrightarrow> compose lib opts \<noteq> Inl e \<Longrightarrow>
      e = OversampleNot3Values \<or> e = OversampleNotPositive \<or> e = AssertionFailed
        \<or> e = EngineSingularMatrix \<or> e = CollaboratorFailure" for e
  proof (cases "compose lib opts")
    case (Inl e')
    assume "outcome (EXECUTE lib opts) = Some e" "compose lib opts \<noteq> Inl e"
    with Inl show ?thesis by (simp add: EXECUTE_def)
  next
    case (Inr st)
    assume "outcome (EXECUTE lib opts) = Some e"
    from late_outcome[OF Inr this] show ?thesis
      using oversample_of_error_which call_outcome_kind by blast
  qed
  from compose_ok after
  show "outcome (EXECUTE lib opts) \<noteq> Some NoTransformForInverse \<and>
      outcome (EXECUTE lib opts) \<noteq> Some NoTransformForReference \<and>
      outcome (EXECUTE lib opts) \<noteq> Some NoTransformForReplace"
    by auto
qed


text \<open>
  Claim C5, amended. In a run with \<^verbatim>\<open>-reslice\<close> and \<^verbatim>\<open>-oversample\<close>, a vector
  that has not exactly 3 values, or has a value less than 1, ends the run with an exception
  before any output is created: the exception of line 198 or of line 200 when the composer
  succeeds, and the composer's own exception (a ValidationError or the failed inversion of
  line 135) otherwise. Without \<^verbatim>\<open>-reslice\<close> the option is not read: the run is the
  same whatever the option's value, supplied or not.
\<close>

theorem oversample_rejected_when_reslicing:
  "(opt_reslice opts = Some template_header \<and> opt_oversample opts = Some v \<and>
      bad_oversample v \<longrightarrow>
      (\<exists>e. EXECUTE lib opts = \<lparr>outcome = Some e, created = None, invoked = None\<rparr> \<and>
           (is_ValidationError e \<or> e = SingularMatrix) \<and>
           (\<forall>st. compose lib opts = Inr st \<longrightarrow>
              e = (if length v \<noteq> 3 then OversampleNot3Values else OversampleNotPositive)))) \<and>
   (opt_reslice opts = None \<longrightarrow>
      (\<forall>x. compose lib (opts\<lparr>opt_oversample := x\<rparr>) = compose lib opts \<and>
           EXECUTE lib (opts\<lparr>opt_oversample := x\<rparr>) = EXECUTE lib opts))"
proof (rule conjI; rule impI)
  assume a: "opt_reslice opts = Some template_header \<and> opt_oversample opts = Some v \<and>
      bad_oversample v"
  then have reslice: "opt_reslice opts = Some template_header"
    and given: "opt_oversample opts = Some v" and bad: "bad_oversample v" by simp_all
  show "\<exists>e. EXECUTE lib opts = \<lparr>outcome = Some e, created = None, invoked = None\<rparr> \<and>
           (is_ValidationError e \<or> e = SingularMatrix) \<and>
           (\<forall>st. compose lib opts = Inr st \<longrightarrow>
              e = (if length v \<noteq> 3 then OversampleNot3Values else OversampleNotPositive))"
  proof (cases "compose lib opts")
    case (Inl e)
    then show ?thesis using compose_error_kind[OF Inl] by (simp add: EXECUTE_def)
  next
    case (Inr st)
    with reslice oversample_of_bad[OF given bad] show ?thesis
      by (simp add: EXECUTE_def reslice_path_def Let_def)
  qed
next
  assume no_reslice: "opt_reslice opts = None"
  have c: "compose lib (opts\<lparr>opt_oversample := x\<rparr>) = compose lib opts" for x
  proof -
    have "load_transform (opts\<lparr>opt_oversample := x\<rparr>) = load_transform opts"
      by (simp add: load_transform_def)
    moreover have "apply_datatype (opts\<lparr>opt_oversample := x\<rparr>) h = apply_datatype opts h" for h
      by (simp add: apply_datatype_def)
    moreover have "apply_reference lib (opts\<lparr>opt_oversample := x\<rparr>) h T0 r
        = apply_reference lib opts h T0 r" for h T0 r
      by (simp add: apply_reference_def split: option.splits)
    ultimately show ?thesis
      by (simp add: compose_def Let_def cong: sum.case_cong)
  qed
  have "EXECUTE lib (opts\<lparr>opt_oversample := x\<rparr>) = EXECUTE lib opts" for x
    using no_reslice by (simp add: EXECUTE_def c cong: sum.case_cong)
  with c show "\<forall>x. compose lib (opts\<lparr>opt_oversample := x\<rparr>) = compose lib opts \<and>
           EXECUTE lib (opts\<lparr>opt_oversample := x\<rparr>) = EXECUTE lib opts"
    by simp
qed

text \<open>
  Claim C6. With \<^verbatim>\<open>-transform\<close>, a matrix read from the file that has not 4 rows
  or not 4 columns ends the run with the exception of line 118, which carries the file's
  name, and no output is created; a matrix of 4 rows and 4 columns is kept as \<open>T\<close> and the
  run does not raise that exception.
\<close>

theorem transform_shape_check:
  assumes given: "opt_transform opts = Some (fname, M)"
  shows "(rows M \<noteq> 4 \<or> columns M \<noteq> 4 \<longrightarrow>
            EXECUTE lib opts
              = \<lparr>outcome = Some (TransformNot4x4 fname), created = None, invoked = None\<rparr>) \<and>
         (rows M = 4 \<and> columns M = 4 \<longrightarrow>
            load_transform opts = Inr M \<and>
            (\<forall>f. outcome (EXECUTE lib opts) \<noteq> Some (TransformNot4x4 f)))"
proof (rule conjI; rule impI)
  assume "rows M \<noteq> 4 \<or> columns M \<noteq> 4"
  with given show "EXECUTE lib opts
      = \<lparr>outcome = Some (TransformNot4x4 fname), created = None, invoked = None\<rparr>"
    by (simp add: EXECUTE_def compose_def load_transform_def)
next
  assume ok: "rows M = 4 \<and> columns M = 4"
  with given have ld: "load_transform opts = Inr M" by (simp add: load_transform_def)
  have "outcome (EXECUTE lib opts) \<noteq> Some (TransformNot4x4 f)" for f
  proof
    assume failed: "outcome (EXECUTE lib opts) = Some (TransformNot4x4 f)"
    show False
    proof (cases "compose lib opts")
      case (Inl e)
      with failed have "compose lib opts = Inl (TransformNot4x4 f)" by (simp add: EXECUTE_def)
      with ld show False
        by (auto simp: compose_def apply_inverse_def apply_reference_def check_replace_def
            Let_def split: sum.splits option.splits if_splits prod.splits)
    next
      case (Inr st)
      from late_outcome[OF Inr failed] show False
        using oversample_of_error_which call_outcome_kind by blast
    qed
  qed
  with ld show "load_transform opts = Inr M \<and>
            (\<forall>f. outcome (EXECUTE lib opts) \<noteq> Some (TransformNot4x4 f))" by simp
qed


section \<open>The reslice path\<close>

text \<open>
  Claim C8. With \<^verbatim>\<open>-reslice\<close>, when the composer and the oversample check succeed
  and both headers have three axes, the header the output image is created with has the
  template's dimensions and voxel sizes on its first three axes and the template's
  transform; without \<^verbatim>\<open>-interp\<close> the call made is \<^verbatim>\<open>reslice<Linear>\<close>.
\<close>

theorem reslice_output_geometry:
  assumes composed: "compose lib opts = Inr st"
    and reslice: "opt_reslice opts = Some template_header"
    and oversample: "oversample_of opts = Inr v"
    and axes_in: "3 \<le> length (axes (arg_input opts))"
    and axes_t: "3 \<le> length (axes template_header)"
  shows "\<exists>h. created (EXECUTE lib opts) = Some h \<and>
           (\<forall>i<3. hdr_dim h i = hdr_dim template_header i \<and>
                   hdr_vox h i = hdr_vox template_header i) \<and>
           transform h = transform template_header \<and>
           (opt_interp opts = None \<longrightarrow>
              (\<exists>hdr_in T1. invoked (EXECUTE lib opts) = Some (Reslice Linear h hdr_in T1 v)))"
proof -
  from composed have hdr: "header st = apply_datatype opts (arg_input opts)"
    by (auto simp: compose_def Let_def split: sum.splits prod.splits)
  let ?h = "template_geometry template_header (header st)"
  from composed reslice oversample have cr: "created (EXECUTE lib opts) = Some ?h"
    by (auto simp: EXECUTE_def reslice_path_def Let_def split: option.splits prod.splits)
  have geo: "\<forall>i<3. hdr_dim ?h i = hdr_dim template_header i \<and>
                   hdr_vox ?h i = hdr_vox template_header i"
    using axes_in by (simp add: hdr_dim_def hdr_vox_def axes_template_geometry hdr)
  have lin: "opt_interp opts = None \<Longrightarrow>
      \<exists>hdr_in T1. invoked (EXECUTE lib opts) = Some (Reslice Linear ?h hdr_in T1 v)"
    using composed reslice oversample
    by (auto simp: EXECUTE_def reslice_path_def interp_of_def kernel_of_def Let_def
        split: prod.splits)
  from cr geo lin show ?thesis by simp
qed

text \<open>
  Claim C9. With \<^verbatim>\<open>-reslice\<close> and replace true, the input header handed to the
  engine has the composed transform \<open>T\<close> in place of its own, the transform handed to the
  engine holds no data, and the header the output image is created with has the template's
  transform, not \<open>T\<close>.
\<close>

theorem reslice_replace_handling:
  assumes composed: "compose lib opts = Inr st"
    and repl: "replace st"
    and reslice: "opt_reslice opts = Some template_header"
    and oversample: "oversample_of opts = Inr v"
    and kernel: "kernel_of (interp_of opts) = Some k"
  shows "\<exists>h. created (EXECUTE lib opts) = Some h \<and>
           transform h = transform template_header \<and>
           invoked (EXECUTE lib opts)
             = Some (Reslice k h ((arg_input opts)\<lparr>transform := T st\<rparr>) unset v) \<and>
           \<not> is_set (unset :: 'a matrix)"
proof -
  from composed have hin: "header_in st = arg_input opts"
    by (auto simp: compose_def Let_def split: sum.splits prod.splits)
  from composed repl reslice oversample kernel hin show ?thesis
    by (simp add: EXECUTE_def reslice_path_def Let_def)
qed

section \<open>Options that are not read\<close>

text \<open>
  Claim C10. Without \<^verbatim>\<open>-reference\<close>, a run with \<^verbatim>\<open>-flipx\<close> and the same run
  without it compose the same transform and end the same way: same exception or none, same
  output header, same call.
\<close>

theorem flipx_ignored_without_reference:
  assumes no_ref: "opt_reference opts = None"
  shows "compose lib (opts\<lparr>opt_flipx := True\<rparr>) = compose lib (opts\<lparr>opt_flipx := False\<rparr>) \<and>
         EXECUTE lib (opts\<lparr>opt_flipx := True\<rparr>) = EXECUTE lib (opts\<lparr>opt_flipx := False\<rparr>)"
proof -
  have c: "compose lib (opts\<lparr>opt_flipx := b\<rparr>) = compose lib opts" for b
  proof -
    have "load_transform (opts\<lparr>opt_flipx := b\<rparr>) = load_transform opts"
      by (simp add: load_transform_def)
    moreover have "apply_datatype (opts\<lparr>opt_flipx := b\<rparr>) h = apply_datatype opts h" for h
      by (simp add: apply_datatype_def)
    moreover have "apply_reference lib (opts\<lparr>opt_flipx := b\<rparr>) h T0 r
        = apply_reference lib opts h T0 r" for h T0 r
      using no_ref by (simp add: apply_reference_def)
    ultimately show ?thesis
      by (simp add: compose_def Let_def cong: sum.case_cong)
  qed
  have r: "reslice_path lib (opts\<lparr>opt_flipx := b\<rparr>) t st = reslice_path lib opts t st" for b t st
    by (simp add: reslice_path_def interp_of_def oversample_of_def)
  show ?thesis by (simp add: EXECUTE_def c r cong: sum.case_cong option.case_cong)
qed


section \<open>The results at concrete runs\<close>

text \<open>
  The theorem at \<^verbatim>\<open>-transform flirt.mat -inverse -reference ref.mif -flipx\<close>: the
  translation by (1, 2, 3) is inverted, the corrections are those of 8 voxels of size 1
  (reference) and 4 voxels of size 2 (input), swapped.
\<close>

theorem flipx_correction_matrices_witness:
  "opt_reference flirt_opts = Some demo_reference \<and> opt_flipx flirt_opts \<and>
   load_transform flirt_opts = Inr (translation 1 2 3) \<and>
   apply_inverse demo_lib (opt_inverse flirt_opts) (translation 1 2 3)
     = Inr (translation (- 1) (- 2) (- 3)) \<and>
   is_set (translation (- 1) (- 2) (- 3)) \<and>
   R_ref_of demo_lib demo_reference = flip_matrix 7 \<and>
   R_orig_of demo_lib demo_input = flip_matrix 6 \<and>
   compose demo_lib flirt_opts
     = Inr \<lparr>T = translation 10 18 27, header_in = demo_input, header = demo_input,
            replace = True\<rparr>"
proof -
  have h1: "opt_reference flirt_opts = Some demo_reference" by code_simp
  have h2: "opt_flipx flirt_opts" by code_simp
  have h3: "load_transform flirt_opts = Inr (translation 1 2 3)" by code_simp
  have h4: "apply_inverse demo_lib (opt_inverse flirt_opts) (translation 1 2 3)
     = Inr (translation (- 1) (- 2) (- 3))" by code_simp
  have h5: "is_set (translation (- 1) (- 2) (- 3))" by code_simp
  note main = flipx_correction_matrices[OF h1 h2 h3 h4 h5]
  have c1: "R_ref_of demo_lib demo_reference = flip_matrix 7"
    by (subst main[THEN conjunct1]) code_simp
  have c2: "R_orig_of demo_lib demo_input = flip_matrix 6"
    by code_simp
  have c3: "compose demo_lib flirt_opts
     = Inr \<lparr>T = translation 10 18 27, header_in = demo_input, header = demo_input,
            replace = True\<rparr>"
    by (subst main[THEN conjunct2, THEN conjunct2]) code_simp
  from h1 h2 h3 h4 h5 c1 c2 c3 show ?thesis by blast
qed


text \<open>The library of the examples keeps matrices that hold data.\<close>

lemma demo_lib_keeps_set: "keeps_set demo_lib"
proof -
  have "is_set I" if "is_set A" and "cofactor_inv A = Some I" for A I
    using that
    by (auto simp: cofactor_inv_def Let_def is_set_def rows_def split: if_splits)
  moreover have "is_set (mat_mult A B)" if "is_set A" for A B
    using that by (simp add: mat_mult_def is_set_def)
  ultimately show ?thesis unfolding keeps_set_def demo_lib_def by auto
qed

text \<open>The theorem at \<^verbatim>\<open>-transform t.txt -reference ref.mif\<close>, without \<^verbatim>\<open>-replace\<close>.\<close>

theorem reference_composition_witness:
  "opt_reference reference_opts = Some demo_reference \<and>
   load_transform reference_opts = Inr (translation 1 2 3) \<and>
   apply_inverse demo_lib (opt_inverse reference_opts) (translation 1 2 3)
     = Inr (translation 1 2 3) \<and>
   is_set (translation 1 2 3) \<and>
   \<not> opt_replace reference_opts \<and>
   apply_reference demo_lib reference_opts demo_input (translation 1 2 3) False
     = Inr (translation 11 22 33, True) \<and>
   compose demo_lib reference_opts
     = Inr \<lparr>T = translation 11 22 33, header_in = demo_input, header = demo_input,
            replace = True\<rparr>"
proof -
  have h1: "opt_reference reference_opts = Some demo_reference" by code_simp
  have h2: "load_transform reference_opts = Inr (translation 1 2 3)" by code_simp
  have h3: "apply_inverse demo_lib (opt_inverse reference_opts) (translation 1 2 3)
     = Inr (translation 1 2 3)" by code_simp
  have h4: "is_set (translation 1 2 3)" by code_simp
  note main = reference_composition[OF h1 h2 h3 h4]
  have r: "\<not> opt_replace reference_opts" by code_simp
  have d: "apply_datatype reference_opts (arg_input reference_opts) = demo_input"
    and f: "opt_replace reference_opts = False" by code_simp+
  have c1: "apply_reference demo_lib reference_opts demo_input (translation 1 2 3) False
     = Inr (translation 11 22 33, True)"
    by (subst main[THEN conjunct1, unfolded d f]) code_simp
  have c2: "compose demo_lib reference_opts
     = Inr \<lparr>T = translation 11 22 33, header_in = demo_input, header = demo_input,
            replace = True\<rparr>"
    by code_simp
  from main[THEN conjunct2] c2 have "replace \<lparr>T = translation 11 22 33, header_in = demo_input,
     header = demo_input, replace = True\<rparr>" by blast
  from h1 h2 h3 h4 r c1 c2 show ?thesis by blast
qed


text \<open>
  The theorem at \<^verbatim>\<open>-transform t.txt\<close>, at \<^verbatim>\<open>-transform t.txt -replace\<close> and at
  no option at all.
\<close>

theorem direct_copy_header_transform_witness:
  "compose demo_lib copy_opts
     = Inr \<lparr>T = translation 1 2 3, header_in = demo_input, header = demo_input,
            replace = False\<rparr> \<and>
   opt_reslice copy_opts = None \<and>
   (\<exists>h. created (EXECUTE demo_lib copy_opts) = Some h \<and> transform h = translation 6 8 10) \<and>
   compose demo_lib replace_opts
     = Inr \<lparr>T = translation 1 2 3, header_in = demo_input, header = demo_input,
            replace = True\<rparr> \<and>
   opt_reslice replace_opts = None \<and>
   (\<exists>h. created (EXECUTE demo_lib replace_opts) = Some h \<and> transform h = translation 1 2 3) \<and>
   compose demo_lib demo_opts
     = Inr \<lparr>T = unset, header_in = demo_input, header = demo_input, replace = False\<rparr> \<and>
   opt_reslice demo_opts = None \<and>
   (\<exists>h. created (EXECUTE demo_lib demo_opts) = Some h \<and> transform h = translation 5 6 7)"
proof -
  have a1: "compose demo_lib copy_opts
     = Inr \<lparr>T = translation 1 2 3, header_in = demo_input, header = demo_input,
            replace = False\<rparr>" by code_simp
  have a2: "opt_reslice copy_opts = None" by code_simp
  have a3: "mult demo_lib (translation 1 2 3) (transform (arg_input copy_opts))
      = translation 6 8 10" by code_simp
  have a4: "is_set (translation 1 2 3)" by code_simp
  have b1: "compose demo_lib replace_opts
     = Inr \<lparr>T = translation 1 2 3, header_in = demo_input, header = demo_input,
            replace = True\<rparr>" by code_simp
  have b2: "opt_reslice replace_opts = None" by code_simp
  have c1: "compose demo_lib demo_opts
     = Inr \<lparr>T = unset, header_in = demo_input, header = demo_input, replace = False\<rparr>"
    by code_simp
  have c2: "opt_reslice demo_opts = None" by code_simp
  have c3: "transform (arg_input demo_opts) = translation 5 6 7" by code_simp
  from direct_copy_header_transform[OF a1 a2] a3 a4
  have a: "\<exists>h. created (EXECUTE demo_lib copy_opts) = Some h \<and> transform h = translation 6 8 10"
    by simp
  from direct_copy_header_transform[OF b1 b2] a4
  have b: "\<exists>h. created (EXECUTE demo_lib replace_opts) = Some h \<and>
      transform h = translation 1 2 3"
    by simp
  from direct_copy_header_transform[OF c1 c2] c3
  have c: "\<exists>h. created (EXECUTE demo_lib demo_opts) = Some h \<and> transform h = translation 5 6 7"
    by simp
  from a b c a1 a2 b1 b2 c1 c2 show ?thesis by blast
qed

text \<open>
  The theorem at \<^verbatim>\<open>-inverse\<close>, \<^verbatim>\<open>-reference ref.mif\<close> and \<^verbatim>\<open>-replace\<close>, each
  without a transform, and at a run with a transform and all of
  \<^verbatim>\<open>-inverse -reference -flipx\<close>.
\<close>

theorem missing_transform_checks_witness:
  "opt_transform (demo_opts\<lparr>opt_inverse := True\<rparr>) = None \<and>
   EXECUTE demo_lib (demo_opts\<lparr>opt_inverse := True\<rparr>)
     = \<lparr>outcome = Some NoTransformForInverse, created = None, invoked = None\<rparr> \<and>
   message NoTransformForInverse = Some (no_transform_for ''-inverse'') \<and>
   opt_transform (demo_opts\<lparr>opt_reference := Some demo_reference\<rparr>) = None \<and>
   EXECUTE demo_lib (demo_opts\<lparr>opt_reference := Some demo_reference\<rparr>)
     = \<lparr>outcome = Some NoTransformForReference, created = None, invoked = None\<rparr> \<and>
   opt_transform (demo_opts\<lparr>opt_replace := True\<rparr>) = None \<and>
   EXECUTE demo_lib (demo_opts\<lparr>opt_replace := True\<rparr>)
     = \<lparr>outcome = Some NoTransformForReplace, created = None, invoked = None\<rparr> \<and>
   opt_transform flirt_opts \<noteq> None \<and> keeps_set demo_lib \<and>
   is_set (transform demo_reference) \<and>
   outcome (EXECUTE demo_lib flirt_opts) \<noteq> Some NoTransformForInverse \<and>
   outcome (EXECUTE demo_lib flirt_opts) \<noteq> Some NoTransformForReference \<and>
   outcome (EXECUTE demo_lib flirt_opts) \<noteq> Some NoTransformForReplace"
proof -
  have a: "opt_transform (demo_opts\<lparr>opt_inverse := True\<rparr>) = None"
    and a2: "opt_inverse (demo_opts\<lparr>opt_inverse := True\<rparr>)" by code_simp+
  have b: "opt_transform (demo_opts\<lparr>opt_reference := Some demo_reference\<rparr>) = None"
    and b2: "\<not> opt_inverse (demo_opts\<lparr>opt_reference := Some demo_reference\<rparr>)"
    and b3: "opt_reference (demo_opts\<lparr>opt_reference := Some demo_reference\<rparr>) \<noteq> None"
    by code_simp+
  have c: "opt_transform (demo_opts\<lparr>opt_replace := True\<rparr>) = None"
    and c2: "\<not> opt_inverse (demo_opts\<lparr>opt_replace := True\<rparr>)"
    and c3: "opt_reference (demo_opts\<lparr>opt_replace := True\<rparr>) = None"
    and c4: "opt_replace (demo_opts\<lparr>opt_replace := True\<rparr>)"
    by code_simp+
  have d: "opt_transform flirt_opts \<noteq> None"
    and d2: "is_set (transform demo_reference)"
    and d3: "opt_reference flirt_opts = Some demo_reference" by code_simp+
  have m: "message NoTransformForInverse = Some (no_transform_for ''-inverse'')" by simp
  from missing_transform_checks[of "demo_opts\<lparr>opt_inverse := True\<rparr>" demo_lib] a a2
  have 1: "EXECUTE demo_lib (demo_opts\<lparr>opt_inverse := True\<rparr>)
     = \<lparr>outcome = Some NoTransformForInverse, created = None, invoked = None\<rparr>"
    by simp
  from missing_transform_checks[of "demo_opts\<lparr>opt_reference := Some demo_reference\<rparr>" demo_lib]
    b b2 b3
  have 2: "EXECUTE demo_lib (demo_opts\<lparr>opt_reference := Some demo_reference\<rparr>)
     = \<lparr>outcome = Some NoTransformForReference, created = None, invoked = None\<rparr>"
    by simp
  from missing_transform_checks[of "demo_opts\<lparr>opt_replace := True\<rparr>" demo_lib]
    c c2 c3 c4
  have 3: "EXECUTE demo_lib (demo_opts\<lparr>opt_replace := True\<rparr>)
     = \<lparr>outcome = Some NoTransformForReplace, created = None, invoked = None\<rparr>"
    by simp
  from missing_transform_checks[of flirt_opts demo_lib] d d2 d3 demo_lib_keeps_set
  have 4: "outcome (EXECUTE demo_lib flirt_opts) \<noteq> Some NoTransformForInverse \<and>
   outcome (EXECUTE demo_lib flirt_opts) \<noteq> Some NoTransformForReference \<and>
   outcome (EXECUTE demo_lib flirt_opts) \<noteq> Some NoTransformForReplace"
    by simp
  from a b c d d2 m 1 2 3 4 demo_lib_keeps_set show ?thesis by blast
qed


text \<open>
  Claim C5, as stated, fails: the option \<^verbatim>\<open>-oversample\<close> is read at line 195, inside
  the branch of \<^verbatim>\<open>-reslice\<close>. The run \<^verbatim>\<open>-oversample 0,1,1\<close> without
  \<^verbatim>\<open>-reslice\<close> raises nothing and copies the image.
\<close>

theorem oversample_ignored_without_reslice:
  "opt_oversample oversample_opts = Some [0, 1, 1] \<and>
   EXECUTE demo_lib oversample_opts
     = \<lparr>outcome = None, created = Some demo_input,
        invoked = Some (Copy demo_input demo_input)\<rparr>"
  by code_simp

text \<open>
  The theorem at \<^verbatim>\<open>-reslice template.mif -oversample 0,1,1\<close>, and at
  \<^verbatim>\<open>-transform t.txt\<close> with and without \<^verbatim>\<open>-oversample 0,1\<close>.
\<close>

theorem oversample_rejected_when_reslicing_witness:
  "opt_reslice oversample_reslice_opts = Some demo_template \<and>
   opt_oversample oversample_reslice_opts = Some [0, 1, 1] \<and>
   bad_oversample [0, 1, 1] \<and>
   EXECUTE demo_lib oversample_reslice_opts
     = \<lparr>outcome = Some OversampleNotPositive, created = None, invoked = None\<rparr> \<and>
   opt_reslice copy_opts = None \<and>
   EXECUTE demo_lib (copy_opts\<lparr>opt_oversample := Some [0, 1]\<rparr>) = EXECUTE demo_lib copy_opts \<and>
   outcome (EXECUTE demo_lib (copy_opts\<lparr>opt_oversample := Some [0, 1]\<rparr>)) = None"
proof -
  have h1: "opt_reslice oversample_reslice_opts = Some demo_template" by code_simp
  have h2: "opt_oversample oversample_reslice_opts = Some [0, 1, 1]" by code_simp
  have h3: "bad_oversample [0, 1, 1]" by (simp add: bad_oversample_def)
  have c: "compose demo_lib oversample_reslice_opts
     = Inr \<lparr>T = unset, header_in = demo_input, header = demo_input, replace = False\<rparr>"
    by code_simp
  from oversample_rejected_when_reslicing[of oversample_reslice_opts demo_template
      "[0, 1, 1]" demo_lib] h1 h2 h3 c
  have a: "EXECUTE demo_lib oversample_reslice_opts
     = \<lparr>outcome = Some OversampleNotPositive, created = None, invoked = None\<rparr>"
    by auto
  have h4: "opt_reslice copy_opts = None" by code_simp
  from oversample_rejected_when_reslicing[of copy_opts demo_template "[0, 1, 1]" demo_lib] h4
  have b: "EXECUTE demo_lib (copy_opts\<lparr>opt_oversample := Some [0, 1]\<rparr>)
      = EXECUTE demo_lib copy_opts"
    by simp
  have o: "outcome (EXECUTE demo_lib copy_opts) = None" by code_simp
  from h1 h2 h3 a h4 b o show ?thesis by simp
qed

text \<open>The theorem at a file of three rows, and at a file of four rows of four numbers.\<close>

theorem transform_shape_check_witness:
  "opt_transform three_rows_opts
     = Some (''bad.txt'', [[1, 0, 0, 0], [0, 1, 0, 0], [0, 0, 1, 0]]) \<and>
   rows [[1, 0, 0, 0], [0, 1, 0, 0], [0, 0, 1, 0 :: real]] = 3 \<and>
   EXECUTE demo_lib three_rows_opts
     = \<lparr>outcome = Some (TransformNot4x4 ''bad.txt''), created = None, invoked = None\<rparr> \<and>
   opt_transform copy_opts = Some (''t.txt'', translation 1 2 3) \<and>
   rows (translation 1 2 3) = 4 \<and> columns (translation 1 2 3) = 4 \<and>
   load_transform copy_opts = Inr (translation 1 2 3) \<and>
   outcome (EXECUTE demo_lib copy_opts) \<noteq> Some (TransformNot4x4 ''t.txt'')"
proof -
  have a1: "opt_transform three_rows_opts
     = Some (''bad.txt'', [[1, 0, 0, 0], [0, 1, 0, 0], [0, 0, 1, 0]])" by code_simp
  have a2: "rows [[1, 0, 0, 0], [0, 1, 0, 0], [0, 0, 1, 0 :: real]] = 3"
    by (simp add: rows_def)
  have b1: "opt_transform copy_opts = Some (''t.txt'', translation 1 2 3)" by code_simp
  have b2: "rows (translation 1 2 3) = 4" "columns (translation 1 2 3) = 4"
    by (simp_all add: rows_def columns_def translation_def)
  from transform_shape_check[OF a1, of demo_lib] a2
  have a: "EXECUTE demo_lib three_rows_opts
     = \<lparr>outcome = Some (TransformNot4x4 ''bad.txt''), created = None, invoked = None\<rparr>"
    by simp
  from transform_shape_check[OF b1, of demo_lib] b2
  have b: "load_transform copy_opts = Inr (translation 1 2 3) \<and>
     outcome (EXECUTE demo_lib copy_opts) \<noteq> Some (TransformNot4x4 ''t.txt'')"
    by simp
  from a1 a2 a b1 b2 b show ?thesis by blast
qed



text \<open>The theorem at \<^verbatim>\<open>-reslice template.mif\<close>.\<close>

theorem reslice_output_geometry_witness:
  "compose demo_lib reslice_opts
     = Inr \<lparr>T = unset, header_in = demo_input, header = demo_input, replace = False\<rparr> \<and>
   opt_reslice reslice_opts = Some demo_template \<and>
   oversample_of reslice_opts = Inr [] \<and>
   3 \<le> length (axes (arg_input reslice_opts)) \<and>
   3 \<le> length (axes demo_template) \<and>
   opt_interp reslice_opts = None \<and>
   (\<exists>h. created (EXECUTE demo_lib reslice_opts) = Some h \<and>
        hdr_dim h 0 = 2 \<and> hdr_dim h 1 = 3 \<and> hdr_dim h 2 = 3 \<and>
        hdr_vox h 0 = 4 \<and> hdr_vox h 1 = 4 \<and> hdr_vox h 2 = 6 \<and>
        transform h = translation (- 1) (- 2) (- 3) \<and>
        (\<exists>hdr_in T1. invoked (EXECUTE demo_lib reslice_opts)
                        = Some (Reslice Linear h hdr_in T1 [])))"
proof -
  have h1: "compose demo_lib reslice_opts
     = Inr \<lparr>T = unset, header_in = demo_input, header = demo_input, replace = False\<rparr>"
    by code_simp
  have h2: "opt_reslice reslice_opts = Some demo_template" by code_simp
  have h3: "oversample_of reslice_opts = Inr []" by code_simp
  have h4: "3 \<le> length (axes (arg_input reslice_opts))" by code_simp
  have h5: "3 \<le> length (axes demo_template)" by code_simp
  have h6: "opt_interp reslice_opts = None" by code_simp
  have t: "hdr_dim demo_template 0 = 2" "hdr_dim demo_template 1 = 3"
    "hdr_dim demo_template 2 = 3" "hdr_vox demo_template 0 = 4"
    "hdr_vox demo_template 1 = 4" "hdr_vox demo_template 2 = 6"
    "transform demo_template = translation (- 1) (- 2) (- 3)"
    by code_simp+
  from reslice_output_geometry[OF h1 h2 h3 h4 h5]
  obtain h where all: "created (EXECUTE demo_lib reslice_opts) = Some h \<and>
           (\<forall>i<3. hdr_dim h i = hdr_dim demo_template i \<and>
                   hdr_vox h i = hdr_vox demo_template i) \<and>
           transform h = transform demo_template \<and>
           (opt_interp reslice_opts = None \<longrightarrow>
              (\<exists>hdr_in T1. invoked (EXECUTE demo_lib reslice_opts)
                 = Some (Reslice Linear h hdr_in T1 [])))" ..
  then have g: "hdr_dim h i = hdr_dim demo_template i \<and>
      hdr_vox h i = hdr_vox demo_template i" if "i < 3" for i
    using that by simp
  have "hdr_dim h 0 = 2 \<and> hdr_dim h 1 = 3 \<and> hdr_dim h 2 = 3 \<and>
        hdr_vox h 0 = 4 \<and> hdr_vox h 1 = 4 \<and> hdr_vox h 2 = 6"
    using g[of 0] g[of 1] g[of 2] t by simp
  moreover from all t have "transform h = translation (- 1) (- 2) (- 3)" by simp
  moreover from all h6 have "\<exists>hdr_in T1. invoked (EXECUTE demo_lib reslice_opts)
                 = Some (Reslice Linear h hdr_in T1 [])" by simp
  moreover from all have "created (EXECUTE demo_lib reslice_opts) = Some h" by simp
  ultimately have "\<exists>h. created (EXECUTE demo_lib reslice_opts) = Some h \<and>
        hdr_dim h 0 = 2 \<and> hdr_dim h 1 = 3 \<and> hdr_dim h 2 = 3 \<and>
        hdr_vox h 0 = 4 \<and> hdr_vox h 1 = 4 \<and> hdr_vox h 2 = 6 \<and>
        transform h = translation (- 1) (- 2) (- 3) \<and>
        (\<exists>hdr_in T1. invoked (EXECUTE demo_lib reslice_opts)
                        = Some (Reslice Linear h hdr_in T1 []))"
    by blast
  with h1 h2 h3 h4 h5 h6 show ?thesis by blast
qed

text \<open>
  The theorem at
  \<^verbatim>\<open>-transform t.txt -replace -reslice template.mif -interp cubic -oversample 2,2,2\<close>.
\<close>

theorem reslice_replace_handling_witness:
  "compose demo_lib reslice_replace_opts
     = Inr \<lparr>T = translation 1 2 3, header_in = demo_input, header = demo_input,
            replace = True\<rparr> \<and>
   opt_reslice reslice_replace_opts = Some demo_template \<and>
   oversample_of reslice_replace_opts = Inr [2, 2, 2] \<and>
   kernel_of (interp_of reslice_replace_opts) = Some Cubic \<and>
   created (EXECUTE demo_lib reslice_replace_opts) = Some demo_resliced \<and>
   transform demo_resliced = transform demo_template \<and>
   invoked (EXECUTE demo_lib reslice_replace_opts)
     = Some (Reslice Cubic demo_resliced (demo_input\<lparr>transform := translation 1 2 3\<rparr>)
               unset [2, 2, 2])"
proof -
  have h1: "compose demo_lib reslice_replace_opts
     = Inr \<lparr>T = translation 1 2 3, header_in = demo_input, header = demo_input,
            replace = True\<rparr>" by code_simp
  have h2: "replace \<lparr>T = translation 1 2 3, header_in = demo_input, header = demo_input,
            replace = True\<rparr>" by simp
  have h3: "opt_reslice reslice_replace_opts = Some demo_template" by code_simp
  have h4: "oversample_of reslice_replace_opts = Inr [2, 2, 2]" by code_simp
  have h5: "kernel_of (interp_of reslice_replace_opts) = Some Cubic" by code_simp
  have c: "created (EXECUTE demo_lib reslice_replace_opts) = Some demo_resliced" by code_simp
  have i: "arg_input reslice_replace_opts = demo_input" by code_simp
  from reslice_replace_handling[OF h1 h2 h3 h4 h5] c i
  have "transform demo_resliced = transform demo_template \<and>
   invoked (EXECUTE demo_lib reslice_replace_opts)
     = Some (Reslice Cubic demo_resliced (demo_input\<lparr>transform := translation 1 2 3\<rparr>)
               unset [2, 2, 2])"
    by auto
  with h1 h3 h4 h5 c show ?thesis by blast
qed

text \<open>The theorem at \<^verbatim>\<open>-transform t.txt\<close>.\<close>

theorem flipx_ignored_without_reference_witness:
  "opt_reference copy_opts = None \<and>
   EXECUTE demo_lib (copy_opts\<lparr>opt_flipx := True\<rparr>)
     = EXECUTE demo_lib (copy_opts\<lparr>opt_flipx := False\<rparr>) \<and>
   outcome (EXECUTE demo_lib (copy_opts\<lparr>opt_flipx := True\<rparr>)) = None"
proof -
  have h: "opt_reference copy_opts = None" by code_simp
  have o: "outcome (EXECUTE demo_lib (copy_opts\<lparr>opt_flipx := True\<rparr>)) = None"
    by code_simp
  from flipx_ignored_without_reference[OF h, of demo_lib] h o show ?thesis by blast
qed

end
